theory Spec2Isabelle
  imports Complex_Main "HOL-Library.AList" "HOL-Library.Sublist"
begin

section \<open>Data model of \<open>benchmarks.py\<close>\<close>

text \<open>
  An element of a numpy float array: a finite value, one of the two infinities, or NaN.
  Finite values are read as reals; the code below only classifies and compares
  elements (\<open>np.isfinite\<close>, \<open>< 0\<close>) and stores the constant 0, it does no arithmetic.
\<close>

datatype elem = Fin real | PosInf | NegInf | NaN

text \<open>A two-dimensional array: \<open>shape[1]\<close> and the rows.\<close>

record matrix =
  ncols :: nat
  rows :: "elem list list"

text \<open>\<open>np.ones((r, c))\<close>\<close>

definition ones :: "nat \<Rightarrow> nat \<Rightarrow> matrix" where
  "ones r c = \<lparr>ncols = c, rows = replicate r (replicate c (Fin 1))\<rparr>"

text \<open>Values of named parameters (\<open>tol=15\<close>, the placeholder \<open>1\<close>, ...).\<close>

datatype pyval = IntV int | StrV string

text \<open>
  A Python \<open>dict\<close> with string keys is an association list in insertion order;
  \<open>d[k] = v\<close> is \<open>AList.update k v d\<close> (an existing key keeps its place, a new one is
  appended) and \<open>d.get(k)\<close> is \<open>map_of d k\<close>.
\<close>

type_synonym kwargs = "(string \<times> pyval) list"

type_synonym wavelengths = "nat list"

text \<open>What a call of an algorithm does: raise, return \<open>None\<close>, or return an array.\<close>

datatype outcome = Raises string | ReturnsNone | Returns matrix

text \<open>
  A function object of a \<open>model\<close> module that has the attribute \<open>has_default\<close>:
  its attributes and its behaviour when called as
  \<open>model(Rrs, wavelengths, sensor, **kwargs)\<close>. The optional attribute
  \<open>model_name\<close> is \<open>None\<close> when absent.
\<close>

record entry_point =
  has_default :: bool
  opt_vars :: "string list"
  model_name :: "string option"
  call :: "matrix \<Rightarrow> wavelengths \<Rightarrow> string \<Rightarrow> kwargs \<Rightarrow> outcome"

text \<open>\<open>hasattr(model, 'has_default')\<close> decides between the two cases.\<close>

datatype symbol = NoAttr | HasAttr entry_point

text \<open>
  One item of \<open>pkgutil.iter_modules\<close> over \<open>Benchmarks/<product>\<close>: its name, whether
  it is a folder, and what \<open>import_module\<close> of its \<open>model\<close> module gives: \<open>None\<close>
  when the import raises, else the names of \<open>dir(imported)\<close> with their objects.
\<close>

record unit_item =
  unit_name :: string
  is_folder :: bool
  imported :: "(string \<times> symbol) list option"

text \<open>\<open>partial(model, sensor=sensor)\<close> with its \<open>__name__\<close> set.\<close>

record bound =
  func :: entry_point
  bound_sensor :: string
  bound_name :: string

type_synonym registry = "(string \<times> bound) list"

text \<open>A value an algorithm returned on the test data: an array or \<open>None\<close>.\<close>

type_synonym estimates = "(string \<times> matrix option) list"

datatype error =
    ImportFailed string
  | MissingGroundTruth
  | BandCountMismatch string nat nat
  | UnknownMethod string "string list"
  | AlgorithmRaised string
  | TypeError
  | AttributeError
  | AmbiguousGroundTruth
  | KeyError string
  | IndexError
  | External string

text \<open>
  The observable effects, in order: a call of an entry point during discovery (folder
  name, callee and the four arguments), a printed line, a call of a registered
  callable on the test data, a call of the scoring collaborator \<open>performance\<close>, and the
  start of one of the orchestrators from \<open>run_benchmarks\<close>.
\<close>

datatype event =
    Probe string entry_point matrix wavelengths string kwargs
  | Print string
  | Invoke string bound matrix wavelengths kwargs
  | Score string "elem list" "matrix option"
  | Started string

section \<open>Discovery: \<open>get_methods\<close>\<close>

text \<open>\<open>sensor.split('-')[0]\<close>\<close>

definition split_first :: "string \<Rightarrow> string" where
  "split_first sensor = takeWhile (\<lambda>c. c \<noteq> CHR ''-'') sensor"

text \<open>\<open>sub in s\<close> on strings\<close>

fun str_contains :: "string \<Rightarrow> string \<Rightarrow> bool" where
  "str_contains sub [] = (sub = [])"
| "str_contains sub (c # cs) = (prefix sub (c # cs) \<or> str_contains sub cs)"

text \<open>\<open>kwargs.update(dict(zip(model.opt_vars, [1]*len(model.opt_vars))))\<close>\<close>

definition add_dummy :: "string list \<Rightarrow> kwargs \<Rightarrow> kwargs" where
  "add_dummy vars kw = AList.updates vars (replicate (length vars) (IntV 1)) kw"

text \<open>The state of the discovery loop: the mutated \<open>kwargs\<close>, \<open>methods\<close>, and the effects so far.\<close>

record gm_state =
  gm_kwargs :: kwargs
  gm_methods :: registry
  gm_trace :: "event list"

definition emit :: "event \<Rightarrow> gm_state \<Rightarrow> gm_state" where
  "emit e st = st\<lparr>gm_trace := gm_trace st @ [e]\<rparr>"

text \<open>\<open>getattr(model, 'model_name', name)\<close>\<close>

definition display_name :: "string \<Rightarrow> entry_point \<Rightarrow> string" where
  "display_name name m = (case model_name m of Some n \<Rightarrow> n | None \<Rightarrow> name)"

text \<open>Lines 42 to 50: the probe and the registration, with the exception handler.\<close>

definition probe :: "wavelengths \<Rightarrow> string \<Rightarrow> bool \<Rightarrow> string \<Rightarrow> entry_point \<Rightarrow> gm_state \<Rightarrow> gm_state" where
  "probe waves sensor debug name m st =
     (let x = ones 1 (length waves);
          st1 = emit (Probe name m x waves sensor (gm_kwargs st)) st
      in case call m x waves sensor (gm_kwargs st) of
           Returns out \<Rightarrow>
             st1\<lparr>gm_methods :=
                   AList.update (display_name name m)
                     \<lparr>func = m, bound_sensor = sensor, bound_name = display_name name m\<rparr>
                     (gm_methods st1)\<rparr>
         | ReturnsNone \<Rightarrow> st1
         | Raises e \<Rightarrow>
             (if debug then emit (Print (''Exception for function '' @ name @ '': '' @ e)) st1
              else st1))"

text \<open>Lines 34 to 54: the body of the loop over the names of a module, for one name that contains \<open>model\<close>.\<close>

definition visit :: "wavelengths \<Rightarrow> string \<Rightarrow> bool \<Rightarrow> bool \<Rightarrow> string \<Rightarrow> symbol \<Rightarrow> gm_state \<Rightarrow> gm_state" where
  "visit waves sensor debug allow_opt name obj st =
     (case obj of
        NoAttr \<Rightarrow> st
      | HasAttr m \<Rightarrow>
          if has_default m \<or> allow_opt then
            probe waves sensor debug name m
              (if \<not> has_default m then st\<lparr>gm_kwargs := add_dummy (opt_vars m) (gm_kwargs st)\<rparr> else st)
          else if debug then emit (Print (name @ '' requires optimization'')) st
          else st)"

text \<open>Lines 30 to 54: the loop over \<open>dir(imported)\<close>.\<close>

fun scan_module :: "wavelengths \<Rightarrow> string \<Rightarrow> bool \<Rightarrow> bool \<Rightarrow> string \<Rightarrow> (string \<times> symbol) list \<Rightarrow> gm_state \<Rightarrow> gm_state" where
  "scan_module waves sensor debug allow_opt name [] st = st"
| "scan_module waves sensor debug allow_opt name ((fname, obj) # rest) st =
     scan_module waves sensor debug allow_opt name rest
       (if str_contains ''model'' fname then visit waves sensor debug allow_opt name obj st else st)"

text \<open>Lines 26 to 54: the loop over the items of the product directory. A failing import ends it.\<close>

fun scan_units :: "wavelengths \<Rightarrow> string \<Rightarrow> bool \<Rightarrow> bool \<Rightarrow> unit_item list \<Rightarrow> gm_state \<Rightarrow> gm_state \<times> error option" where
  "scan_units waves sensor debug allow_opt [] st = (st, None)"
| "scan_units waves sensor debug allow_opt (u # us) st =
     (if is_folder u then
        (case imported u of
           None \<Rightarrow> (st, Some (ImportFailed (unit_name u)))
         | Some syms \<Rightarrow>
             scan_units waves sensor debug allow_opt us
               (scan_module waves sensor debug allow_opt (unit_name u) syms st))
      else scan_units waves sensor debug allow_opt us st)"

text \<open>
  \<open>get_methods(wavelengths, sensor, product, debug, allow_opt, **kwargs)\<close>, given the
  items of \<open>Benchmarks/<product>\<close>. It returns the effects and the registry, or the
  error that left it.
\<close>

definition get_methods :: "unit_item list \<Rightarrow> wavelengths \<Rightarrow> string \<Rightarrow> bool \<Rightarrow> bool \<Rightarrow> kwargs \<Rightarrow> event list \<times> (error + registry)" where
  "get_methods units waves sensor debug allow_opt kw =
     (case scan_units waves (split_first sensor) debug allow_opt units
             \<lparr>gm_kwargs = kw, gm_methods = [], gm_trace = []\<rparr> of
        (st, Some e) \<Rightarrow> (gm_trace st, Inl e)
      | (st, None) \<Rightarrow> (gm_trace st, Inr (gm_methods st)))"

section \<open>The orchestrator: \<open>bench_product\<close>\<close>

text \<open>\<open>np.isfinite\<close> and \<open>< 0\<close> on one element.\<close>

fun isfinite :: "elem \<Rightarrow> bool" where
  "isfinite (Fin r) = True"
| "isfinite PosInf = False"
| "isfinite NegInf = False"
| "isfinite NaN = False"

fun lt_zero :: "elem \<Rightarrow> bool" where
  "lt_zero (Fin r) = (r < 0)"
| "lt_zero PosInf = False"
| "lt_zero NegInf = True"
| "lt_zero NaN = False"

text \<open>\<open>a[mask(a)] = 0\<close>, the mask computed element by element.\<close>

definition set_zero_where :: "(elem \<Rightarrow> bool) \<Rightarrow> matrix \<Rightarrow> matrix" where
  "set_zero_where p a = a\<lparr>rows := map (map (\<lambda>e. if p e then Fin 0 else e)) (rows a)\<rparr>"

text \<open>Lines 74 and 75.\<close>

definition clamp_chl :: "matrix \<Rightarrow> matrix" where
  "clamp_chl est_val = set_zero_where lt_zero (set_zero_where (\<lambda>e. \<not> isfinite e) est_val)"

text \<open>Lines 73 to 75; \<open>np.isfinite(None)\<close> is a \<open>TypeError\<close>.\<close>

definition postprocess :: "string \<Rightarrow> matrix option \<Rightarrow> error + matrix option" where
  "postprocess product est_val =
     (if product = ''chl'' then
        (case est_val of None \<Rightarrow> Inl TypeError | Some a \<Rightarrow> Inr (Some (clamp_chl a)))
      else Inr est_val)"

text \<open>
  A \<open>slice(start, stop)\<close> object with no step. \<open>slice_bounds n s\<close> are the first column
  and the column after the last one that it selects among \<open>n\<close> columns, with Python's
  rules for \<open>None\<close>, negative and too large bounds.
\<close>

datatype pyslice = Slice "int option" "int option"

definition clip_index :: "nat \<Rightarrow> int \<Rightarrow> nat" where
  "clip_index n i = (if i < 0 then nat (max 0 (int n + i)) else min (nat i) n)"

fun slice_bounds :: "nat \<Rightarrow> pyslice \<Rightarrow> nat \<times> nat" where
  "slice_bounds n (Slice a b) =
     ((case a of None \<Rightarrow> 0 | Some i \<Rightarrow> clip_index n i),
      (case b of None \<Rightarrow> n | Some i \<Rightarrow> clip_index n i))"

text \<open>\<open>y[:, s]\<close> and \<open>y[:, i]\<close>\<close>

definition take_cols :: "pyslice \<Rightarrow> matrix \<Rightarrow> matrix" where
  "take_cols s y =
     (case slice_bounds (ncols y) s of
        (lo, hi) \<Rightarrow> \<lparr>ncols = hi - lo, rows = map (\<lambda>r. take (hi - lo) (drop lo r)) (rows y)\<rparr>)"

definition column :: "nat \<Rightarrow> matrix \<Rightarrow> elem list" where
  "column i y = map (\<lambda>r. r ! i) (rows y)"

type_synonym slices = "(string \<times> pyslice) list"

text \<open>Lines 78 to 81: the slice mapping used for scoring.\<close>

definition curr_slice :: "string \<Rightarrow> matrix \<Rightarrow> slices option \<Rightarrow> matrix option \<Rightarrow> error + slices" where
  "curr_slice product y_test slices est_val =
     (case slices of
        Some sl \<Rightarrow> Inr sl
      | None \<Rightarrow>
          (case est_val of
             None \<Rightarrow> Inl AttributeError
           | Some a \<Rightarrow>
               if ncols y_test = ncols a then Inr [(product, Slice None None)]
               else Inl AmbiguousGroundTruth))"

text \<open>Lines 77 to 85: the calls of \<open>performance\<close>, one for each selected column of the ground truth.\<close>

definition scoring :: "string \<Rightarrow> string \<Rightarrow> matrix \<Rightarrow> slices option \<Rightarrow> matrix option \<Rightarrow> error + event list" where
  "scoring product name y_test slices est_val =
     (case curr_slice product y_test slices est_val of
        Inl e \<Rightarrow> Inl e
      | Inr cs \<Rightarrow>
          (case map_of cs product of
             None \<Rightarrow> Inl (KeyError product)
           | Some s \<Rightarrow>
               (let ins_val = take_cols s y_test
                in Inr (map (\<lambda>i. Score name (column i ins_val) est_val) [0..<ncols ins_val]))))"

text \<open>
  The call \<open>func(x_test, waves, tol=15)\<close> of a registered callable: the entry point
  gets the bound sensor as its third argument.
\<close>

definition invoke :: "bound \<Rightarrow> matrix \<Rightarrow> wavelengths \<Rightarrow> kwargs \<Rightarrow> outcome" where
  "invoke b x waves kw = call (func b) x waves (bound_sensor b) kw"

definition tol15 :: kwargs where
  "tol15 = [(''tol'', IntV 15)]"

text \<open>Lines 70 to 87: the body of the loop for one selected entry of the registry.\<close>

definition run_one :: "string \<Rightarrow> bool \<Rightarrow> matrix option \<Rightarrow> slices option \<Rightarrow> matrix \<Rightarrow> wavelengths \<Rightarrow> string \<Rightarrow> bound \<Rightarrow> event list \<times> (error + matrix option)" where
  "run_one product silent y_test slices x_test waves name b =
     (let tr = [Invoke name b x_test waves tol15]
      in case invoke b x_test waves tol15 of
           Raises e \<Rightarrow> (tr, Inl (AlgorithmRaised e))
         | out \<Rightarrow>
            (case postprocess product (case out of Returns a \<Rightarrow> Some a | _ \<Rightarrow> None) of
               Inl e \<Rightarrow> (tr, Inl e)
             | Inr est_val \<Rightarrow>
                 if silent then (tr, Inr est_val)
                 else (case y_test of
                         None \<Rightarrow> (tr, Inl TypeError)
                       | Some y \<Rightarrow>
                           (case scoring product name y slices est_val of
                              Inl e \<Rightarrow> (tr, Inl e)
                            | Inr sc \<Rightarrow> (tr @ sc, Inr est_val)))))"

text \<open>Lines 67 to 87: the loop over \<open>methods.items()\<close>, giving \<open>lbls\<close> and \<open>ests\<close> zipped.\<close>

fun run_loop :: "string \<Rightarrow> bool \<Rightarrow> matrix option \<Rightarrow> slices option \<Rightarrow> string option \<Rightarrow> matrix \<Rightarrow> wavelengths \<Rightarrow> registry \<Rightarrow> event list \<times> (error + estimates)" where
  "run_loop product silent y_test slices method x_test waves [] = ([], Inr [])"
| "run_loop product silent y_test slices method x_test waves ((name, b) # rest) =
     (if method = None \<or> method = Some name then
        (case run_one product silent y_test slices x_test waves name b of
           (tr, Inl e) \<Rightarrow> (tr, Inl e)
         | (tr, Inr est_val) \<Rightarrow>
             (case run_loop product silent y_test slices method x_test waves rest of
                (tr2, Inl e) \<Rightarrow> (tr @ tr2, Inl e)
              | (tr2, Inr r) \<Rightarrow> (tr @ tr2, Inr ((name, est_val) # r))))
      else run_loop product silent y_test slices method x_test waves rest)"

text \<open>\<open>dict(zip(lbls, ests))\<close>, from the zipped lists.\<close>

definition dict_of :: "(string \<times> 'v) list \<Rightarrow> (string \<times> 'v) list" where
  "dict_of kvs = AList.updates (map fst kvs) (map snd kvs) []"

text \<open>
  \<open>bench_product(args, sensor, x_test, y_test, slices, silent, product, method)\<close>.
  The collaborator \<open>get_sensor_bands(sensor, args)\<close> and the content of the directory
  \<open>Benchmarks/<product>\<close> are parameters.
\<close>

definition bench_product ::
  "(string \<Rightarrow> wavelengths) \<Rightarrow> (string \<Rightarrow> unit_item list) \<Rightarrow> string \<Rightarrow> matrix \<Rightarrow> matrix option \<Rightarrow>
   slices option \<Rightarrow> bool \<Rightarrow> string \<Rightarrow> string option \<Rightarrow> event list \<times> (error + estimates)" where
  "bench_product get_sensor_bands layout sensor x_test y_test slices silent product method =
     (if \<not> (silent \<or> y_test \<noteq> None) then ([], Inl MissingGroundTruth)
      else
        let waves = get_sensor_bands sensor
        in if \<not> ncols x_test \<le> length waves
           then ([], Inl (BandCountMismatch sensor (ncols x_test) (length waves)))
           else
             (case get_methods (layout product) waves sensor True False tol15 of
                (tr, Inl e) \<Rightarrow> (tr, Inl e)
              | (tr, Inr methods) \<Rightarrow>
                  (case (case method of None \<Rightarrow> None
                         | Some m \<Rightarrow> if m \<in> set (map fst methods) then None else Some m) of
                     Some m \<Rightarrow> (tr, Inl (UnknownMethod m (map fst methods)))
                   | None \<Rightarrow>
                       (case run_loop product silent y_test slices method x_test waves methods of
                          (tr2, Inl e) \<Rightarrow> (tr @ tr2, Inl e)
                        | (tr2, Inr r) \<Rightarrow> (tr @ tr2, Inr (dict_of r))))))"

section \<open>The dispatcher: \<open>run_benchmarks\<close>\<close>

text \<open>\<open>benchmarks.update(d)\<close>\<close>

definition dict_update :: "(string \<times> 'v) list \<Rightarrow> (string \<times> 'v) list \<Rightarrow> (string \<times> 'v) list" where
  "dict_update benchmarks d = AList.updates (map fst d) (map snd d) benchmarks"





section \<open>Observations on a run\<close>

text \<open>
  The entry points that the discovery loop reaches, in order, with the name of their
  folder: those of the folder items up to the first failing import, under a name that
  contains \<open>model\<close>, with the attribute \<open>has_default\<close>.
\<close>

fun module_candidates :: "string \<Rightarrow> (string \<times> symbol) list \<Rightarrow> (string \<times> entry_point) list" where
  "module_candidates name [] = []"
| "module_candidates name ((fname, obj) # rest) =
     (case obj of
        HasAttr m \<Rightarrow> if str_contains ''model'' fname then [(name, m)] else []
      | NoAttr \<Rightarrow> []) @ module_candidates name rest"

fun candidates :: "unit_item list \<Rightarrow> (string \<times> entry_point) list" where
  "candidates [] = []"
| "candidates (u # us) =
     (if is_folder u then
        (case imported u of None \<Rightarrow> [] | Some syms \<Rightarrow> module_candidates (unit_name u) syms @ candidates us)
      else candidates us)"

text \<open>The gate of line 36.\<close>

definition gate :: "bool \<Rightarrow> string \<times> entry_point \<Rightarrow> bool" where
  "gate allow_opt c = (has_default (snd c) \<or> allow_opt)"

text \<open>The probes among the effects, and the entry points they call with the name of their folder.\<close>

fun is_probe :: "event \<Rightarrow> bool" where
  "is_probe (Probe n m x w s k) = True"
| "is_probe _ = False"

fun probed :: "event list \<Rightarrow> (string \<times> entry_point) list" where
  "probed [] = []"
| "probed (Probe n m x w s k # es) = (n, m) # probed es"
| "probed (e # es) = probed es"

text \<open>
  The probes that discovery owes to a list of entry points: each is called once, in order,
  with a matrix of one row of ones, as wide as the wavelengths, with the wavelengths, the
  sensor and the named parameters; an entry point without defaults first adds its
  placeholders to the named parameters, which stay for the entry points after it.
\<close>

fun expected_probes :: "wavelengths \<Rightarrow> string \<Rightarrow> kwargs \<Rightarrow> (string \<times> entry_point) list \<Rightarrow> event list" where
  "expected_probes waves sensor kw [] = []"
| "expected_probes waves sensor kw ((n, m) # cs) =
     (let kw' = (if has_default m then kw else add_dummy (opt_vars m) kw)
      in Probe n m (ones 1 (length waves)) waves sensor kw' # expected_probes waves sensor kw' cs)"

text \<open>
  What a probe does to the registry: if the call returned an array, the callee is stored
  under its display name, bound to the sensor of the probe and carrying that name;
  if it returned \<open>None\<close> or raised, nothing is stored.
\<close>

fun register :: "event \<Rightarrow> registry \<Rightarrow> registry" where
  "register (Probe n m x w s k) reg =
     (case call m x w s k of
        Returns out \<Rightarrow> AList.update (display_name n m)
                         \<lparr>func = m, bound_sensor = s, bound_name = display_name n m\<rparr> reg
      | _ \<Rightarrow> reg)"
| "register _ reg = reg"

definition registry_of :: "event list \<Rightarrow> registry" where
  "registry_of tr = fold register tr []"







section \<open>Example plugins\<close>

text \<open>An algorithm without default parameters, tuned by one parameter \<open>a\<close>.\<close>

definition ex_opt_model :: entry_point where
  "ex_opt_model = \<lparr>has_default = False, opt_vars = [''a''], model_name = None,
                   call = (\<lambda>x w s kw. Returns x)\<rparr>"


text \<open>
  A product directory with three algorithm folders and a plain module: one whose model
  raises on every input, one that works and declares the name \<open>OC3\<close>, and the tuned
  one above.
\<close>

definition ex_oc3 :: entry_point where
  "ex_oc3 = \<lparr>has_default = True, opt_vars = [], model_name = Some ''OC3'',
             call = (\<lambda>x w s kw. Returns \<lparr>ncols = 1, rows = map (\<lambda>r. [Fin 1]) (rows x)\<rparr>)\<rparr>"

definition ex_broken :: entry_point where
  "ex_broken = \<lparr>has_default = True, opt_vars = [], model_name = None,
                call = (\<lambda>x w s kw. Raises ''missing band'')\<rparr>"

definition ex_units :: "unit_item list" where
  "ex_units =
     [\<lparr>unit_name = ''Broken'', is_folder = True, imported = Some [(''model'', HasAttr ex_broken)]\<rparr>,
      \<lparr>unit_name = ''OC'', is_folder = True,
        imported = Some [(''find_wavelength'', NoAttr), (''model'', HasAttr ex_oc3), (''model_doc'', NoAttr)]\<rparr>,
      \<lparr>unit_name = ''Tuned'', is_folder = True, imported = Some [(''model'', HasAttr ex_opt_model)]\<rparr>,
      \<lparr>unit_name = ''utils'', is_folder = False, imported = None\<rparr>]"

definition ex_waves :: wavelengths where
  "ex_waves = [443, 490, 555, 670]"

text \<open>
  A product directory in which an entry point without defaults declares the same name
  \<open>OC3\<close> as one with defaults.
\<close>

definition ex_oc3_tuned :: entry_point where
  "ex_oc3_tuned = \<lparr>has_default = False, opt_vars = [''a0''], model_name = Some ''OC3'',
                   call = (\<lambda>x w s kw. Returns x)\<rparr>"

definition ex_clash_units :: "unit_item list" where
  "ex_clash_units =
     [\<lparr>unit_name = ''OC'', is_folder = True, imported = Some [(''model'', HasAttr ex_oc3)]\<rparr>,
      \<lparr>unit_name = ''OC_tuned'', is_folder = True, imported = Some [(''model'', HasAttr ex_oc3_tuned)]\<rparr>]"

text \<open>
  An environment for the orchestrator: every sensor has the four bands above, the
  chlorophyll directory is the one above, and the suspended-solids directory holds one
  algorithm that returns three columns. A further algorithm returns, in each row, a
  negative value, a NaN and a positive value.
\<close>

definition ex_bands :: "string \<Rightarrow> wavelengths" where
  "ex_bands sensor = ex_waves"

definition ex_three :: entry_point where
  "ex_three = \<lparr>has_default = True, opt_vars = [], model_name = None,
               call = (\<lambda>x w s kw. Returns \<lparr>ncols = 3, rows = map (\<lambda>r. [Fin 1, Fin 2, Fin 3]) (rows x)\<rparr>)\<rparr>"


definition ex_layout :: "string \<Rightarrow> unit_item list" where
  "ex_layout product =
     (if product = ''chl'' then ex_units
      else if product = ''tss'' then
        [\<lparr>unit_name = ''Three'', is_folder = True, imported = Some [(''model'', HasAttr ex_three)]\<rparr>]
      else [])"



definition ex_x5 :: matrix where
  "ex_x5 = \<lparr>ncols = 5, rows = replicate 10 [Fin 0.004, Fin 0.005, Fin 0.006, Fin 0.002, Fin 0.001]\<rparr>"






section \<open>Auxiliary lemmas\<close>


lemma visit_NoAttr [simp]: "visit waves sensor debug allow_opt name NoAttr st = st"
  by (simp add: visit_def)

lemma scan_module_fold:
  "scan_module waves sensor debug allow_opt name syms st =
   fold (\<lambda>(n, m). visit waves sensor debug allow_opt n (HasAttr m)) (module_candidates name syms) st"
  by (induction waves sensor debug allow_opt name syms st rule: scan_module.induct)
     (auto split: symbol.splits)

lemma scan_units_fold:
  "fst (scan_units waves sensor debug allow_opt units st) =
   fold (\<lambda>(n, m). visit waves sensor debug allow_opt n (HasAttr m)) (candidates units) st"
  by (induction units arbitrary: st) (auto simp: scan_module_fold split: option.splits)


lemma fold_visit_invariant:
  assumes "I st"
    and "\<And>n m st. (n, m) \<in> set cs \<Longrightarrow> I st \<Longrightarrow> I (visit waves sensor debug allow_opt n (HasAttr m) st)"
  shows "I (fold (\<lambda>(n, m). visit waves sensor debug allow_opt n (HasAttr m)) cs st)"
  using assms by (induction cs arbitrary: st) auto

lemma get_methods_trace:
  "fst (get_methods units waves sensor debug allow_opt kw) =
   gm_trace (fold (\<lambda>(n, m). visit waves (split_first sensor) debug allow_opt n (HasAttr m)) (candidates units)
      \<lparr>gm_kwargs = kw, gm_methods = [], gm_trace = []\<rparr>)"
  unfolding get_methods_def scan_units_fold [symmetric]
  by (simp split: prod.splits option.splits)


lemma gm_simps [simp]:
  "gm_kwargs (emit e st) = gm_kwargs st"
  "gm_methods (emit e st) = gm_methods st"
  "gm_trace (emit e st) = gm_trace st @ [e]"
  by (simp_all add: emit_def)

lemma probe_kwargs [simp]: "gm_kwargs (probe waves sensor debug name m st) = gm_kwargs st"
  by (simp add: probe_def Let_def split: outcome.splits)

lemma probe_trace:
  "gm_trace (probe waves sensor debug name m st) =
   gm_trace st @ Probe name m (ones 1 (length waves)) waves sensor (gm_kwargs st) #
     (case call m (ones 1 (length waves)) waves sensor (gm_kwargs st) of
        Raises e \<Rightarrow> if debug then [Print (''Exception for function '' @ name @ '': '' @ e)] else []
      | _ \<Rightarrow> [])"
  by (simp add: probe_def Let_def split: outcome.splits)

lemma probe_methods:
  "gm_methods (probe waves sensor debug name m st) =
   (case call m (ones 1 (length waves)) waves sensor (gm_kwargs st) of
      Returns out \<Rightarrow> AList.update (display_name name m)
         \<lparr>func = m, bound_sensor = sensor, bound_name = display_name name m\<rparr> (gm_methods st)
    | _ \<Rightarrow> gm_methods st)"
  by (simp add: probe_def Let_def split: outcome.splits)

lemma visit_kwargs:
  "gm_kwargs (visit waves sensor debug allow_opt name (HasAttr m) st) =
   (if \<not> has_default m \<and> allow_opt then add_dummy (opt_vars m) (gm_kwargs st) else gm_kwargs st)"
  by (simp add: visit_def)

lemma visit_trace:
  "gm_trace (visit waves sensor debug allow_opt name (HasAttr m) st) =
   gm_trace st @
   (if has_default m \<or> allow_opt then
      Probe name m (ones 1 (length waves)) waves sensor
         (gm_kwargs (visit waves sensor debug allow_opt name (HasAttr m) st)) #
      (case call m (ones 1 (length waves)) waves sensor
              (gm_kwargs (visit waves sensor debug allow_opt name (HasAttr m) st)) of
         Raises e \<Rightarrow> if debug then [Print (''Exception for function '' @ name @ '': '' @ e)] else []
       | _ \<Rightarrow> [])
    else if debug then [Print (name @ '' requires optimization'')] else [])"
  by (simp add: visit_def probe_trace)

lemma visit_methods:
  "gm_methods (visit waves sensor debug allow_opt name (HasAttr m) st) =
   (if has_default m \<or> allow_opt then
      (case call m (ones 1 (length waves)) waves sensor
              (gm_kwargs (visit waves sensor debug allow_opt name (HasAttr m) st)) of
         Returns out \<Rightarrow> AList.update (display_name name m)
            \<lparr>func = m, bound_sensor = sensor, bound_name = display_name name m\<rparr> (gm_methods st)
       | _ \<Rightarrow> gm_methods st)
    else gm_methods st)"
  by (simp add: visit_def probe_methods split: outcome.splits)

lemma replicate_4: "replicate 4 x = [x, x, x, x]"
  by (simp add: eval_nat_numeral)

lemma ex_units_discovery:
  "get_methods ex_units ex_waves ''OLI'' True False tol15 =
     ([Probe ''Broken'' ex_broken (ones 1 4) ex_waves ''OLI'' tol15,
       Print ''Exception for function Broken: missing band'',
       Probe ''OC'' ex_oc3 (ones 1 4) ex_waves ''OLI'' tol15,
       Print ''Tuned requires optimization''],
      Inr [(''OC3'', \<lparr>func = ex_oc3, bound_sensor = ''OLI'', bound_name = ''OC3''\<rparr>)])"
  by (simp add: get_methods_def ex_units_def ex_waves_def visit_def probe_def emit_def
      split_first_def display_name_def ex_broken_def ex_oc3_def ex_opt_model_def ones_def replicate_4)

lemma candidates_ex_units:
  "candidates ex_units = [(''Broken'', ex_broken), (''OC'', ex_oc3), (''Tuned'', ex_opt_model)]"
  by (simp add: ex_units_def)

lemma set_update_subset: "set (AList.update k v al) \<subseteq> insert (k, v) (set al)"
  by (induction al) auto

lemma fold_register_append: "fold register (xs @ ys) r = fold register ys (fold register xs r)"
  by simp

lemma visit_registry:
  "gm_methods (visit waves sensor debug allow_opt n (HasAttr m) st) =
   fold register (drop (length (gm_trace st)) (gm_trace (visit waves sensor debug allow_opt n (HasAttr m) st)))
     (gm_methods st)"
  by (simp add: visit_trace visit_methods split: outcome.splits)

lemma visit_trace_prefix:
  "take (length (gm_trace st)) (gm_trace (visit waves sensor debug allow_opt n (HasAttr m) st)) = gm_trace st"
  by (simp add: visit_trace)

lemma visit_all_registry:
  "gm_methods st = fold register (gm_trace st) [] \<Longrightarrow>
   gm_methods (fold (\<lambda>(n, m). visit waves sensor debug allow_opt n (HasAttr m)) cs st) =
   fold register (gm_trace (fold (\<lambda>(n, m). visit waves sensor debug allow_opt n (HasAttr m)) cs st)) []"
proof (rule fold_visit_invariant [where I = "\<lambda>st. gm_methods st = fold register (gm_trace st) []"])
  fix n m and st :: gm_state
  assume inv: "gm_methods st = fold register (gm_trace st) []"
  let ?st' = "visit waves sensor debug allow_opt n (HasAttr m) st"
  have "gm_trace ?st' = gm_trace st @ drop (length (gm_trace st)) (gm_trace ?st')"
    by (metis append_take_drop_id visit_trace_prefix)
  then have "fold register (gm_trace ?st') [] =
      fold register (drop (length (gm_trace st)) (gm_trace ?st')) (fold register (gm_trace st) [])"
    by (metis fold_register_append)
  then show "gm_methods ?st' = fold register (gm_trace ?st') []"
    using inv visit_registry [of waves sensor debug allow_opt n m st] by simp
qed

lemma visit_all_probes:
  "filter is_probe (gm_trace (fold (\<lambda>(n, m). visit waves sensor debug allow_opt n (HasAttr m)) cs st)) =
   filter is_probe (gm_trace st) @
   expected_probes waves sensor (gm_kwargs st) (filter (gate allow_opt) cs)"
proof (induction cs arbitrary: st)
  case Nil
  then show ?case by simp
next
  case (Cons c cs)
  obtain n m where c: "c = (n, m)" by (cases c)
  show ?case
    by (simp add: c Cons.IH visit_trace visit_kwargs gate_def Let_def split: outcome.splits)
qed

lemma get_methods_result:
  "get_methods units waves sensor debug allow_opt kw = (tr, Inr reg) \<Longrightarrow>
   reg = gm_methods (fold (\<lambda>(n, m). visit waves (split_first sensor) debug allow_opt n (HasAttr m)) (candidates units)
      \<lparr>gm_kwargs = kw, gm_methods = [], gm_trace = []\<rparr>)"
  unfolding get_methods_def scan_units_fold [symmetric]
  by (auto split: prod.splits option.splits)

lemma discovery_registry:
  assumes "get_methods units waves sensor debug allow_opt kw = (tr, r)"
  shows "\<forall>reg. r = Inr reg \<longrightarrow> reg = registry_of tr"
proof (intro allI impI)
  fix reg
  assume r: "r = Inr reg"
  let ?st = "fold (\<lambda>(n, m). visit waves (split_first sensor) debug allow_opt n (HasAttr m)) (candidates units)
      \<lparr>gm_kwargs = kw, gm_methods = [], gm_trace = []\<rparr>"
  have tr: "tr = gm_trace ?st"
    using assms get_methods_trace [of units waves sensor debug allow_opt kw] by simp
  have "reg = gm_methods ?st" using assms r get_methods_result by blast
  also have "\<dots> = fold register (gm_trace ?st) []" by (rule visit_all_registry) simp
  finally show "reg = registry_of tr" by (simp add: registry_of_def tr)
qed

lemma probed_append: "probed (xs @ ys) = probed xs @ probed ys"
  by (induction xs rule: probed.induct) auto

lemma probed_filter: "probed (filter is_probe tr) = probed tr"
  by (induction tr rule: probed.induct) auto

lemma probed_expected: "probed (expected_probes waves sensor kw cs) = cs"
  by (induction waves sensor kw cs rule: expected_probes.induct) (auto simp: Let_def)

lemma get_methods_probed:
  assumes "get_methods units waves sensor debug allow_opt kw = (tr, r)"
  shows "probed tr = filter (gate allow_opt) (candidates units)"
proof -
  have "filter is_probe tr =
      expected_probes waves (split_first sensor) kw (filter (gate allow_opt) (candidates units))"
    using assms get_methods_trace [of units waves sensor debug allow_opt kw]
    by (simp add: visit_all_probes)
  then show ?thesis by (metis probed_filter probed_expected)
qed

lemma probed_iff: "(n, m) \<in> set (probed tr) \<longleftrightarrow> (\<exists>x w s k. Probe n m x w s k \<in> set tr)"
  by (induction tr rule: probed.induct) auto


lemma registry_of_sound:
  "(key, b) \<in> set (fold register tr reg) \<Longrightarrow>
   (key, b) \<in> set reg \<or>
   (\<exists>n x w s k out. Probe n (func b) x w s k \<in> set tr \<and> call (func b) x w s k = Returns out \<and>
      key = display_name n (func b) \<and> bound_sensor b = s \<and> bound_name b = key)"
proof (induction tr arbitrary: reg)
  case Nil
  then show ?case by simp
next
  case (Cons e tr)
  from Cons.prems have "(key, b) \<in> set (fold register tr (register e reg))" by simp
  from Cons.IH [OF this] show ?case
  proof
    assume in_reg: "(key, b) \<in> set (register e reg)"
    show ?thesis
    proof (cases e)
      case (Probe n m x w s k)
      show ?thesis
      proof (cases "call m x w s k")
        case (Returns out)
        with in_reg Probe have "(key, b) \<in> insert (display_name n m,
            \<lparr>func = m, bound_sensor = s, bound_name = display_name n m\<rparr>) (set reg)"
          using set_update_subset by fastforce
        then show ?thesis
        proof
          assume "(key, b) = (display_name n m, \<lparr>func = m, bound_sensor = s, bound_name = display_name n m\<rparr>)"
          then have "Probe n (func b) x w s k \<in> set (e # tr)" "call (func b) x w s k = Returns out"
            "key = display_name n (func b)" "bound_sensor b = s" "bound_name b = key"
            using Probe Returns by auto
          then show ?thesis by blast
        next
          assume "(key, b) \<in> set reg"
          then show ?thesis by blast
        qed
      qed (use in_reg Probe in auto)
    qed (use in_reg in auto)
  next
    assume "\<exists>n x w s k out. Probe n (func b) x w s k \<in> set tr \<and> call (func b) x w s k = Returns out \<and>
      key = display_name n (func b) \<and> bound_sensor b = s \<and> bound_name b = key"
    then obtain n x w s k out where "Probe n (func b) x w s k \<in> set tr"
      "call (func b) x w s k = Returns out" "key = display_name n (func b)"
      "bound_sensor b = s" "bound_name b = key"
      by blast
    moreover from this have "Probe n (func b) x w s k \<in> set (e # tr)" by simp
    ultimately show ?thesis by blast
  qed
qed


lemma fold_visit_trace_mono:
  "set (gm_trace st) \<subseteq> set (gm_trace (fold (\<lambda>(n, m). visit waves sensor debug allow_opt n (HasAttr m)) cs st))"
  by (rule fold_visit_invariant [where I = "\<lambda>s. set (gm_trace st) \<subseteq> set (gm_trace s)"])
     (auto simp: visit_trace)

lemma fold_visit_requires_opt:
  assumes "(n, m) \<in> set cs" "\<not> has_default m" "debug"
  shows "Print (n @ '' requires optimization'')
           \<in> set (gm_trace (fold (\<lambda>(n, m). visit waves sensor debug False n (HasAttr m)) cs st))"
  using assms(1)
proof (induction cs arbitrary: st)
  case Nil
  then show ?case by simp
next
  case (Cons c cs)
  show ?case
  proof (cases "c = (n, m)")
    case True
    have "Print (n @ '' requires optimization'') \<in> set (gm_trace (visit waves sensor debug False n (HasAttr m) st))"
      using assms(2,3) by (simp add: visit_trace)
    then show ?thesis
      using fold_visit_trace_mono [of "visit waves sensor debug False n (HasAttr m) st" waves sensor debug False cs]
      by (auto simp: True)
  next
    case False
    with Cons.prems have "(n, m) \<in> set cs" by simp
    from Cons.IH [OF this] show ?thesis by (cases c) simp
  qed
qed


lemma ex_chl_layout [simp]: "ex_layout ''chl'' = ex_units"
  by (simp add: ex_layout_def)











lemma clamp_chl_ncols [simp]: "ncols (clamp_chl a) = ncols a"
  by (simp add: clamp_chl_def set_zero_where_def)























lemma dict_update_Nil [simp]: "dict_update [] d = dict_of d"
  by (simp add: dict_update_def dict_of_def)




section \<open>Discovery: the claims\<close>








text \<open>
  C4, as the code has it. With optimization disabled, an entry point whose
  \<open>has_default\<close> is false is never probed and is not the callee of any registered
  callable; if \<open>debug\<close> is set, the line saying that its folder requires optimization
  is printed; and its display name is not a key of the registry, unless an entry point
  with defaults has the same display name.
\<close>

theorem no_default_not_registered:
  assumes run: "get_methods units waves sensor debug False kw = (tr, r)"
    and cand: "(n, m) \<in> set (candidates units)"
    and nd: "\<not> has_default m"
  shows "(\<forall>n' x w s k. Probe n' m x w s k \<notin> set tr) \<and>
         (\<forall>reg key b. r = Inr reg \<longrightarrow> (key, b) \<in> set reg \<longrightarrow> func b \<noteq> m) \<and>
         (debug \<longrightarrow> Print (n @ '' requires optimization'') \<in> set tr) \<and>
         ((\<forall>(n', m') \<in> set (candidates units). has_default m' \<longrightarrow> display_name n' m' \<noteq> display_name n m) \<longrightarrow>
            (\<forall>reg. r = Inr reg \<longrightarrow> display_name n m \<notin> fst ` set reg))"
proof -
  have probed: "probed tr = filter (gate False) (candidates units)"
    by (rule get_methods_probed [OF run])
  have gated: "has_default m' \<and> (n', m') \<in> set (candidates units)" if "Probe n' m' x w s k \<in> set tr" for n' m' x w s k
  proof -
    from that have "(n', m') \<in> set (probed tr)" by (auto simp: probed_iff)
    then show ?thesis by (simp add: probed gate_def)
  qed
  have registered: "\<exists>n' x w s k. Probe n' (func b) x w s k \<in> set tr \<and> key = display_name n' (func b)"
    if "r = Inr reg" "(key, b) \<in> set reg" for reg key b
  proof -
    have "reg = registry_of tr" using discovery_registry [OF run] that by blast
    with that have "(key, b) \<in> set (fold register tr [])" by (simp add: registry_of_def)
    from registry_of_sound [OF this]
    have "\<exists>n x w s k out. Probe n (func b) x w s k \<in> set tr \<and> call (func b) x w s k = Returns out \<and>
      key = display_name n (func b) \<and> bound_sensor b = s \<and> bound_name b = key"
      by simp
    then show ?thesis by blast
  qed
  have 1: "\<forall>n' x w s k. Probe n' m x w s k \<notin> set tr"
    using gated nd by blast
  have 2: "\<forall>reg key b. r = Inr reg \<longrightarrow> (key, b) \<in> set reg \<longrightarrow> func b \<noteq> m"
    using registered gated nd by blast
  have 3: "Print (n @ '' requires optimization'') \<in> set tr" if debug
    using fold_visit_requires_opt [OF cand nd that] run
      get_methods_trace [of units waves sensor debug False kw] by simp
  have 4: "display_name n m \<notin> fst ` set reg"
    if uniq: "\<forall>(n', m') \<in> set (candidates units). has_default m' \<longrightarrow> display_name n' m' \<noteq> display_name n m"
      and r: "r = Inr reg" for reg
  proof
    assume "display_name n m \<in> fst ` set reg"
    then obtain b where "(display_name n m, b) \<in> set reg" by auto
    from registered [OF r this] obtain n' x w s k where
      p: "Probe n' (func b) x w s k \<in> set tr" and d: "display_name n m = display_name n' (func b)"
      by blast
    from gated [OF p] uniq have "display_name n' (func b) \<noteq> display_name n m" by blast
    with d show False by simp
  qed
  from 1 2 3 4 show ?thesis by blast
qed

theorem no_default_not_registered_witness:
  "(''Tuned'', ex_opt_model) \<in> set (candidates ex_units) \<and> \<not> has_default ex_opt_model \<and>
   probed (fst (get_methods ex_units ex_waves ''OLI'' True False tol15)) =
     [(''Broken'', ex_broken), (''OC'', ex_oc3)] \<and>
   Print ''Tuned requires optimization'' \<in> set (fst (get_methods ex_units ex_waves ''OLI'' True False tol15)) \<and>
   snd (get_methods ex_units ex_waves ''OLI'' True False tol15) =
     Inr [(''OC3'', \<lparr>func = ex_oc3, bound_sensor = ''OLI'', bound_name = ''OC3''\<rparr>)] \<and>
   display_name ''Tuned'' ex_opt_model
     \<notin> fst ` set [(''OC3'', \<lparr>func = ex_oc3, bound_sensor = ''OLI'', bound_name = ''OC3''\<rparr>)]"
proof -
  have cand: "(''Tuned'', ex_opt_model) \<in> set (candidates ex_units)"
    by (simp add: candidates_ex_units)
  have nd: "\<not> has_default ex_opt_model" by (simp add: ex_opt_model_def)
  from no_default_not_registered [OF ex_units_discovery cand nd] cand nd
  show ?thesis
    by (simp add: ex_units_discovery display_name_def ex_opt_model_def)
qed

text \<open>
  C4, as the claim states it, fails on the display name: the entry point of the folder
  \<open>OC_tuned\<close> has no defaults and optimization is disabled, yet its display name \<open>OC3\<close>
  is a key of the registry, where it stands for the entry point of the folder \<open>OC\<close>.
\<close>

theorem display_name_shared:
  "(''OC_tuned'', ex_oc3_tuned) \<in> set (candidates ex_clash_units) \<and>
   \<not> has_default ex_oc3_tuned \<and>
   display_name ''OC_tuned'' ex_oc3_tuned = ''OC3'' \<and>
   snd (get_methods ex_clash_units ex_waves ''OLI'' True False tol15) =
     Inr [(''OC3'', \<lparr>func = ex_oc3, bound_sensor = ''OLI'', bound_name = ''OC3''\<rparr>)]"
  by (simp add: get_methods_def ex_clash_units_def ex_waves_def visit_def probe_def emit_def
      split_first_def display_name_def ex_oc3_def ex_oc3_tuned_def ones_def)



section \<open>The orchestrator: the claims\<close>




text \<open>
  C6, as the code has it. With more feature columns than wavelengths,
  \<open>bench_product\<close> raises with no effect at all: no probe of discovery and no call of a
  registered callable has happened. The error is the band-count error, which names the
  sensor and the two counts, whenever \<open>silent\<close> is set or ground truth is given;
  otherwise the first assertion has already failed.
\<close>

theorem band_count_checked_first:
  assumes "length (get_sensor_bands sensor) < ncols x_test"
  shows "fst (bench_product get_sensor_bands layout sensor x_test y_test slices silent product meth) = [] \<and>
         (\<exists>e. snd (bench_product get_sensor_bands layout sensor x_test y_test slices silent product meth) = Inl e) \<and>
         (silent \<or> y_test \<noteq> None \<longrightarrow>
            snd (bench_product get_sensor_bands layout sensor x_test y_test slices silent product meth) =
              Inl (BandCountMismatch sensor (ncols x_test) (length (get_sensor_bands sensor)))) \<and>
         (\<not> (silent \<or> y_test \<noteq> None) \<longrightarrow>
            snd (bench_product get_sensor_bands layout sensor x_test y_test slices silent product meth) =
              Inl MissingGroundTruth)"
  using assms by (simp add: bench_product_def Let_def)

theorem band_count_checked_first_witness:
  "length (ex_bands ''OLI'') < ncols ex_x5 \<and>
   bench_product ex_bands ex_layout ''OLI'' ex_x5 None None True ''chl'' None =
     ([], Inl (BandCountMismatch ''OLI'' 5 4))"
proof -
  have less: "length (ex_bands ''OLI'') < ncols ex_x5"
    by (simp add: ex_x5_def ex_bands_def ex_waves_def)
  from band_count_checked_first [where get_sensor_bands = ex_bands and sensor = "''OLI''"
      and x_test = ex_x5 and layout = ex_layout and y_test = None and slices = None
      and silent = True and product = "''chl''" and meth = None, OF less] less
  show ?thesis
    by (simp add: prod_eq_iff) (simp add: ex_x5_def ex_bands_def ex_waves_def)
qed

text \<open>
  C6, as the claim states it, fails on the kind of error: with scoring enabled and no
  ground truth, the first assertion fails before the band count is looked at.
\<close>

theorem band_count_after_ground_truth_check:
  "length (ex_bands ''OLI'') < ncols ex_x5 \<and>
   bench_product ex_bands ex_layout ''OLI'' ex_x5 None None False ''chl'' None =
     ([], Inl MissingGroundTruth)"
  by (simp add: bench_product_def ex_x5_def ex_bands_def ex_waves_def)






section \<open>The dispatcher: the claims\<close>



end
